theory Spec2Isabelle
  imports Complex_Main
begin

section \<open>The grid scanner of nplab/experiment/gridscanner.py\<close>

text \<open>
  A shallow embedding of the class \<open>GridScanner\<close>. The object is a record, a method is a
  function from the record to an outcome and the record as the method leaves it, so that
  what a method has already changed when it raises stays visible. NumPy's float64 values
  are read as real numbers: rounding, overflow to \<open>inf\<close> and \<open>NaN\<close> arithmetic are not
  part of the model (a \<open>NaN\<close> entry of \<open>_step_times\<close> is \<open>None\<close>).
\<close>

subsection \<open>Exceptions, stage calls and the scanner object\<close>

datatype error =
    IndexError
  | KeyError
  | AssertionError
  | ValueError
  | AttributeError
  | ArangeError
  | External string

text \<open>
  \<open>ArangeError\<close> is what \<open>numpy.arange\<close> raises for a zero step (a
  \<open>ZeroDivisionError\<close>, or for float64 operands the refusal to compute a length from
  an infinite quotient). \<open>External\<close> is any exception of the stage driver or of the
  user's \<open>scan_function\<close>.
\<close>

datatype event =
    StageMove real string
  | Measure "nat list"
  | OpenScan
  | DriftCompensation
  | AnalyseScan
  | CloseScan

text \<open>
  The calls the scanner makes to its collaborators, in order, are kept in \<open>trace\<close>:
  \<open>StageMove p a\<close> is \<open>self.scanner.move(p, axis=a)\<close>, \<open>Measure idx\<close> is
  \<open>self.scan_function(*idx)\<close>, the others are the overridable hooks.
\<close>

record scanner =
  stage_units :: real
  axes :: "string list"
  axes_names :: "string list"
  size_arr :: "real list"
  step :: "real list"
  init :: "real list"
  scan_axes :: "real list list"
  num_axes :: int
  size_unit :: string
  step_unit :: string
  init_unit :: string
  grid_shape :: "nat list"
  total_points :: nat
  status :: string
  abort_requested :: bool
  acquiring :: bool
  indices :: "int list"
  linear_index :: nat
  step_times :: "real option list option"
  trace :: "event list"

text \<open>
  \<open>size_arr\<close> is the attribute \<open>size\<close>, \<open>num_axes\<close> is \<open>_num_axes\<close>, \<open>linear_index\<close> is
  \<open>_index\<close>, and \<open>step_times\<close> is \<open>_step_times\<close> flattened in C order, \<open>None\<close> as long
  as the attribute does not exist (\<open>hasattr\<close> is false).
\<close>

type_synonym 'a outcome = "(error + 'a) \<times> scanner"

definition and_then :: "(scanner \<Rightarrow> 'a outcome) \<Rightarrow> ('a \<Rightarrow> scanner \<Rightarrow> 'b outcome) \<Rightarrow> scanner \<Rightarrow> 'b outcome" where
  "and_then f g s = (case f s of (Inl e, s') \<Rightarrow> (Inl e, s') | (Inr x, s') \<Rightarrow> g x s')"

definition returns :: "'a \<Rightarrow> scanner \<Rightarrow> 'a outcome" where
  "returns x s = (Inr x, s)"

definition lift :: "error + 'a \<Rightarrow> scanner \<Rightarrow> 'a outcome" where
  "lift r s = (r, s)"

definition modify :: "(scanner \<Rightarrow> scanner) \<Rightarrow> scanner \<Rightarrow> unit outcome" where
  "modify f s = (Inr (), f s)"

subsection \<open>Python indexing and slicing\<close>

definition py_index :: "'a list \<Rightarrow> int \<Rightarrow> error + 'a" where
  "py_index xs i =
     (if 0 \<le> i \<and> i < int (length xs) then Inr (xs ! nat i)
      else if i < 0 \<and> - i \<le> int (length xs) then Inr (xs ! nat (int (length xs) + i))
      else Inl IndexError)"

definition py_setitem :: "'a list \<Rightarrow> int \<Rightarrow> 'a \<Rightarrow> error + 'a list" where
  "py_setitem xs i v =
     (if 0 \<le> i \<and> i < int (length xs) then Inr (xs[nat i := v])
      else if i < 0 \<and> - i \<le> int (length xs) then Inr (xs[nat (int (length xs) + i) := v])
      else Inl IndexError)"



subsection \<open>Units\<close>

definition unit_conversion :: "string \<rightharpoonup> real" where
  "unit_conversion = [''nm'' \<mapsto> 1 / 10 ^ 9, ''um'' \<mapsto> 1 / 10 ^ 6, ''mm'' \<mapsto> 1 / 10 ^ 3]"

definition lookup_unit :: "string \<Rightarrow> error + real" where
  "lookup_unit u = (case unit_conversion u of None \<Rightarrow> Inl KeyError | Some c \<Rightarrow> Inr c)"

datatype param = Size | Step | Init

fun get_unit :: "param \<Rightarrow> scanner \<Rightarrow> string" where
  "get_unit Size s = size_unit s"
| "get_unit Step s = step_unit s"
| "get_unit Init s = init_unit s"

fun set_unit :: "param \<Rightarrow> string \<Rightarrow> scanner \<Rightarrow> scanner" where
  "set_unit Size u s = s\<lparr>size_unit := u\<rparr>"
| "set_unit Step u s = s\<lparr>step_unit := u\<rparr>"
| "set_unit Init u s = s\<lparr>init_unit := u\<rparr>"

fun get_param :: "param \<Rightarrow> scanner \<Rightarrow> real list" where
  "get_param Size s = size_arr s"
| "get_param Step s = step s"
| "get_param Init s = init s"

fun set_param :: "param \<Rightarrow> real list \<Rightarrow> scanner \<Rightarrow> scanner" where
  "set_param Size a s = s\<lparr>size_arr := a\<rparr>"
| "set_param Step a s = s\<lparr>step := a\<rparr>"
| "set_param Init a s = s\<lparr>init := a\<rparr>"

text \<open>
  \<open>rescale_parameter\<close> is the setter of the properties \<open>size_unit\<close>, \<open>step_unit\<close> and
  \<open>init_unit\<close>, which fix \<open>param\<close> to one of the three names; for them the attribute
  \<open>_<param>_unit\<close> always exists, so \<open>old_value\<close> is the stored unit.
\<close>

definition rescale_parameter :: "param \<Rightarrow> string \<Rightarrow> scanner \<Rightarrow> unit outcome" where
  "rescale_parameter p new_unit s =
     (if new_unit \<notin> dom unit_conversion then (Inl AssertionError, s)
      else
        let old_unit = get_unit p s;
            s1 = set_unit p new_unit s;
            a = get_param p s1
        in and_then (lift (lookup_unit old_unit)) (\<lambda>c_old.
           and_then (lift (lookup_unit new_unit)) (\<lambda>c_new.
           modify (set_param p (map (\<lambda>x. x * (c_old / c_new)) a)))) s1)"

subsection \<open>Changing the number of axes\<close>


subsection \<open>The collaborators\<close>

text \<open>
  What the scanner does not own is the environment of a scan: the stage driver's
  \<open>move\<close> (it returns, or raises), the user's \<open>scan_function\<close> (it raises, or
  returns after the elapsed time that \<open>_timed_scan_function\<close> reads off the clock),
  and the other thread, which may call \<open>abort()\<close>: \<open>abort_time = Some t\<close> says that it
  sets \<open>abort_requested\<close> when the scanner has made \<open>t\<close> calls (the length of \<open>trace\<close>).
\<close>

record env =
  stage_move :: "real \<Rightarrow> string \<Rightarrow> error option"
  scan_function :: "nat list \<Rightarrow> error + real"
  abort_time :: "nat option"

definition sync :: "env \<Rightarrow> scanner \<Rightarrow> scanner" where
  \<comment> \<open>the write of the aborting thread, once its time has come\<close>
  "sync ev s =
     (case abort_time ev of
        None \<Rightarrow> s
      | Some t \<Rightarrow> if t \<le> length (trace s) then s\<lparr>abort_requested := True\<rparr> else s)"

definition emit :: "env \<Rightarrow> event \<Rightarrow> scanner \<Rightarrow> scanner" where
  "emit ev c s = sync ev (s\<lparr>trace := trace s @ [c]\<rparr>)"

definition move :: "env \<Rightarrow> real \<Rightarrow> string \<Rightarrow> scanner \<Rightarrow> unit outcome" where
  "move ev position axis s =
     (let p = position / stage_units s;
          s1 = emit ev (StageMove p axis) s
      in case stage_move ev p axis of None \<Rightarrow> (Inr (), s1) | Some e \<Rightarrow> (Inl e, s1))"

definition open_scan :: "env \<Rightarrow> scanner \<Rightarrow> unit outcome" where
  "open_scan ev = modify (emit ev OpenScan)"

definition update_drift_compensation :: "env \<Rightarrow> scanner \<Rightarrow> unit outcome" where
  "update_drift_compensation ev = modify (emit ev DriftCompensation)"

definition analyse_scan :: "env \<Rightarrow> scanner \<Rightarrow> unit outcome" where
  "analyse_scan ev = modify (emit ev AnalyseScan)"

definition close_scan :: "env \<Rightarrow> scanner \<Rightarrow> unit outcome" where
  "close_scan ev = modify (emit ev CloseScan)"

subsection \<open>Building the grid\<close>

definition bind_err :: "error + 'a \<Rightarrow> ('a \<Rightarrow> error + 'b) \<Rightarrow> error + 'b" where
  "bind_err r f = (case r of Inl e \<Rightarrow> Inl e | Inr x \<Rightarrow> f x)"

definition arange :: "real \<Rightarrow> real \<Rightarrow> real \<Rightarrow> error + real list" where
  \<comment> \<open>\<open>numpy.arange(start, stop, step)\<close>: \<open>ceil((stop - start) / step)\<close> values, none if that is negative\<close>
  "arange start stop stp =
     (if stp = 0 then Inl ArangeError
      else Inr (map (\<lambda>i. start + real i * stp) [0..<nat \<lceil>(stop - start) / stp\<rceil>]))"

definition grid_axis :: "scanner \<Rightarrow> real list \<Rightarrow> real list \<Rightarrow> real list \<Rightarrow> nat \<Rightarrow> error + real list" where
  \<comment> \<open>the body of the loop of \<open>init_grid\<close>\<close>
  "grid_axis g sz st ini i =
     bind_err (py_index sz (int i)) (\<lambda>sz_i.
     bind_err (lookup_unit (size_unit g)) (\<lambda>c_size.
     bind_err (py_index st (int i)) (\<lambda>st_i.
     bind_err (lookup_unit (step_unit g)) (\<lambda>c_step.
     bind_err (py_index ini (int i)) (\<lambda>ini_i.
     bind_err (lookup_unit (init_unit g)) (\<lambda>c_init.
       let s = sz_i * c_size;
           stp = st_i * c_step;
           s0 = ini_i * c_init
       in bind_err (arange 0 (s + stp / 2) stp) (\<lambda>ax.
          Inr (map (\<lambda>x. x - s / 2 + s0) ax))))))))"

fun grid_axes :: "scanner \<Rightarrow> real list \<Rightarrow> real list \<Rightarrow> real list \<Rightarrow> nat list \<Rightarrow> real list list \<Rightarrow> error + real list list" where
  "grid_axes g sz st ini [] acc = Inr acc"
| "grid_axes g sz st ini (i # rest) acc =
     bind_err (grid_axis g sz st ini i) (\<lambda>ax. grid_axes g sz st ini rest (acc @ [ax]))"

definition init_grid :: "string list \<Rightarrow> real list \<Rightarrow> real list \<Rightarrow> real list \<Rightarrow> scanner \<Rightarrow> real list list outcome" where
  "init_grid axs sz st ini s =
     (case grid_axes s sz st ini [0..<length axs] [] of
        Inl e \<Rightarrow> (Inl e, s)
      | Inr sa \<Rightarrow>
          (Inr sa, s\<lparr>grid_shape := map length sa,
                     total_points := foldl (*) 1 (map length sa),
                     scan_axes := sa\<rparr>))"

definition init_current_grid :: "scanner \<Rightarrow> real list list outcome" where
  "init_current_grid s = init_grid (axes s) (size_arr s) (step s) (init s) s"

text \<open>
  The constructor, for a stage with the given axis names. The attributes that the
  constructor leaves unset (\<open>indices\<close>, \<open>_index\<close>, \<open>_step_times\<close>) have no value yet; the
  record holds an empty one. The default grid cannot fail to build, so the outcome of
  \<open>init_grid\<close> there is only its scanner.
\<close>

definition new_scanner :: "string list \<Rightarrow> scanner" where
  "new_scanner axis_names =
     (let s = \<lparr> stage_units = 1, axes = axis_names, axes_names = axis_names,
                size_arr = replicate (length axis_names) 1,
                step = replicate (length axis_names) (5 / 100),
                init = replicate (length axis_names) 0,
                scan_axes = [], num_axes = int (length axis_names),
                size_unit = ''um'', step_unit = ''um'', init_unit = ''um'',
                grid_shape = [], total_points = 0, status = [],
                abort_requested = False, acquiring = False, indices = [],
                linear_index = 0, step_times = None, trace = [] \<rparr>
      in (snd (init_current_grid s))\<lparr>status := ''inactive'', abort_requested := False\<rparr>)"

subsection \<open>The scan\<close>

definition ravel :: "nat list \<Rightarrow> nat list \<Rightarrow> nat" where
  \<comment> \<open>the position of an index tuple in an array of the given shape, in C order\<close>
  "ravel shape idx = foldl (\<lambda>acc (n, i). acc * n + i) 0 (zip shape idx)"

definition np_setitem :: "nat list \<Rightarrow> 'a list \<Rightarrow> nat list \<Rightarrow> 'a \<Rightarrow> error + 'a list" where
  \<comment> \<open>\<open>a[idx] = v\<close> for a full index tuple\<close>
  "np_setitem shape a idx v =
     (if length idx = length shape \<and> list_all2 (<) idx shape
      then Inr (a[ravel shape idx := v]) else Inl IndexError)"

definition timed_scan_function :: "env \<Rightarrow> nat list \<Rightarrow> scanner \<Rightarrow> unit outcome" where
  "timed_scan_function ev idx s =
     (let s1 = emit ev (Measure idx) s
      in case scan_function ev idx of
           Inl e \<Rightarrow> (Inl e, s1)
         | Inr dt \<Rightarrow>
             (case step_times s1 of
                None \<Rightarrow> (Inl AttributeError, s1)
              | Some ts \<Rightarrow>
                  (case np_setitem (grid_shape s1) ts idx (Some dt) of
                     Inl e \<Rightarrow> (Inl e, s1)
                   | Inr ts' \<Rightarrow> (Inr (), s1\<lparr>step_times := Some ts'\<rparr>))))"

fun show_nat :: "nat \<Rightarrow> string" where
  "show_nat n =
     (if n < 10 then [''0123456789'' ! n]
      else show_nat (n div 10) @ [''0123456789'' ! (n mod 10)])"

declare show_nat.simps [simp del]

fun loop_i :: "env \<Rightarrow> string list \<Rightarrow> real list list \<Rightarrow> nat \<Rightarrow> nat \<Rightarrow> nat list \<Rightarrow> scanner \<Rightarrow> unit outcome" where
  "loop_i ev axs sa j k [] s = (Inr (), s)"
| "loop_i ev axs sa j k (i # rest) s =
     (if abort_requested s then (Inr (), s)
      else
        and_then (lift (py_index sa (- 3))) (\<lambda>ax.
        and_then (lift (py_index ax (int i))) (\<lambda>p.
        and_then (lift (py_index axs (- 3))) (\<lambda>a.
        and_then (move ev p a) (\<lambda>_.
        and_then (modify (\<lambda>t. t\<lparr>indices := [int i, int j, int k]\<rparr>)) (\<lambda>_.
        and_then (timed_scan_function ev [i, j, k]) (\<lambda>_.
        and_then (modify (\<lambda>t. t\<lparr>linear_index := linear_index t + 1\<rparr>)) (\<lambda>_ t.
        loop_i ev axs sa j k rest t))))))) s)"

fun loop_j :: "env \<Rightarrow> string list \<Rightarrow> real list list \<Rightarrow> nat \<Rightarrow> nat list \<Rightarrow> nat list list \<Rightarrow> scanner \<Rightarrow> nat list list outcome" where
  "loop_j ev axs sa k [] pnts s = (Inr pnts, s)"
| "loop_j ev axs sa k (j # rest) pnts s =
     (if abort_requested s then (Inr pnts, s)
      else
        and_then (lift (py_index sa (- 2))) (\<lambda>ax.
        and_then (lift (py_index ax (int j))) (\<lambda>p.
        and_then (lift (py_index axs (- 2))) (\<lambda>a.
        and_then (move ev p a) (\<lambda>_.
        and_then
          (if length axs = 3 then
             and_then (lift (py_index pnts (- 3))) (\<lambda>p3.
             and_then (lift (py_setitem pnts (- 3) (rev p3))) (\<lambda>pnts1.
             and_then (lift (py_index pnts1 (- 3))) (\<lambda>is.
             and_then (loop_i ev axs sa j k is) (\<lambda>_.
             returns pnts1))))
           else if length axs = 2 then
             and_then (modify (\<lambda>t. t\<lparr>indices := [int j, int k]\<rparr>)) (\<lambda>_.
             and_then (timed_scan_function ev [j, k]) (\<lambda>_.
             and_then (modify (\<lambda>t. t\<lparr>linear_index := linear_index t + 1\<rparr>)) (\<lambda>_.
             returns pnts)))
           else returns pnts) (\<lambda>pnts2 t.
        loop_j ev axs sa k rest pnts2 t))))) s)"

fun loop_k :: "env \<Rightarrow> string list \<Rightarrow> real list list \<Rightarrow> nat list \<Rightarrow> nat list list \<Rightarrow> scanner \<Rightarrow> nat list list outcome" where
  "loop_k ev axs sa [] pnts s = (Inr pnts, s)"
| "loop_k ev axs sa (k # rest) pnts s =
     (if abort_requested s then (Inr pnts, s)
      else
        and_then (update_drift_compensation ev) (\<lambda>_.
        and_then (lift (py_index pnts (- 1))) (\<lambda>p1.
        and_then (modify (\<lambda>t. t\<lparr>status := ''Scanning layer '' @ show_nat (k + 1) @ ''/'' @ show_nat (length p1)\<rparr>)) (\<lambda>_.
        and_then (lift (py_index sa (- 1))) (\<lambda>ax.
        and_then (lift (py_index ax (int k))) (\<lambda>p.
        and_then (lift (py_index axs (- 1))) (\<lambda>a.
        and_then (move ev p a) (\<lambda>_.
        and_then (lift (py_index pnts (- 2))) (\<lambda>p2.
        and_then (lift (py_setitem pnts (- 2) (rev p2))) (\<lambda>pnts1.
        and_then (lift (py_index pnts1 (- 2))) (\<lambda>js.
        and_then (loop_j ev axs sa k js pnts1) (\<lambda>pnts2 t.
        loop_k ev axs sa rest pnts2 t))))))))))) s)"

definition traverse :: "env \<Rightarrow> string list \<Rightarrow> real list list \<Rightarrow> scanner \<Rightarrow> nat list list outcome" where
  \<comment> \<open>the loop nest of \<open>scan_grid\<close>, from the list \<open>pnts\<close> of index ranges\<close>
  "traverse ev axs sa =
     (let pnts = map (\<lambda>ax. [0..<length ax]) sa
      in and_then (lift (py_index pnts (- 1))) (\<lambda>ks. loop_k ev axs sa ks pnts))"

fun return_to_init :: "env \<Rightarrow> string list \<Rightarrow> real list \<Rightarrow> nat list \<Rightarrow> scanner \<Rightarrow> unit outcome" where
  "return_to_init ev axs ini [] s = (Inr (), s)"
| "return_to_init ev axs ini (i # rest) s =
     and_then (lift (py_index ini (int i))) (\<lambda>p.
     and_then (lift (py_index axs (int i))) (\<lambda>a.
     and_then (move ev p a) (\<lambda>_ t.
     return_to_init ev axs ini rest t))) s"

definition scan_grid :: "env \<Rightarrow> string list \<Rightarrow> real list \<Rightarrow> real list \<Rightarrow> real list \<Rightarrow> scanner \<Rightarrow> unit outcome" where
  "scan_grid ev axs sz st ini =
     and_then (modify (\<lambda>t. sync ev (t\<lparr>abort_requested := False\<rparr>))) (\<lambda>_.
     and_then (init_grid axs sz st ini) (\<lambda>sa.
     and_then (open_scan ev) (\<lambda>_.
     and_then (modify (\<lambda>t. t\<lparr>indices := replicate (length axs) (- 1),
                               linear_index := 0,
                               step_times := Some (replicate (prod_list (grid_shape t)) None),
                               status := ''acquiring data'',
                               acquiring := True\<rparr>)) (\<lambda>_.
     and_then (traverse ev axs sa) (\<lambda>_.
     and_then (modify (\<lambda>t. t\<lparr>acquiring := False\<rparr>)) (\<lambda>_.
     and_then (return_to_init ev axs ini [0..<length axs]) (\<lambda>_.
     and_then (analyse_scan ev) (\<lambda>_.
     and_then (close_scan ev) (\<lambda>_.
     modify (\<lambda>t. t\<lparr>status := ''scan complete''\<rparr>))))))))))"

subsection \<open>The time remaining\<close>

datatype duration = Infinite | Seconds real

definition finite_entries :: "real option list \<Rightarrow> real list" where
  \<comment> \<open>\<open>self._step_times[np.isfinite(self._step_times)]\<close>\<close>
  "finite_entries ts = concat (map (\<lambda>x. case x of None \<Rightarrow> [] | Some v \<Rightarrow> [v]) ts)"

definition mean :: "real list \<Rightarrow> real" where
  "mean xs = sum_list xs / real (length xs)"

definition get_estimated_time_remaining :: "scanner \<Rightarrow> duration" where
  "get_estimated_time_remaining s =
     (case step_times s of
        None \<Rightarrow> Infinite
      | Some ts \<Rightarrow>
          if finite_entries ts = [] then Seconds 0
          else Seconds (real_of_int (int (total_points s) - int (linear_index s)) * mean (finite_entries ts)))"

subsection \<open>Well-formed scanners and environments\<close>


definition axis_coordinates :: "real \<Rightarrow> real \<Rightarrow> real \<Rightarrow> real list" where
  \<comment> \<open>what \<open>np.arange(0, s + st/2., st) - s/2. + s0\<close> holds when \<open>st\<close> is not zero\<close>
  "axis_coordinates s st s0 = map (\<lambda>k. real k * st - s / 2 + s0) [0..<nat \<lceil>(s + st / 2) / st\<rceil>]"

definition valid_units :: "scanner \<Rightarrow> bool" where
  \<comment> \<open>the three unit tags are keys of the conversion table, as the constructor and \<open>rescale_parameter\<close> leave them\<close>
  "valid_units s \<longleftrightarrow>
     size_unit s \<in> dom unit_conversion \<and> step_unit s \<in> dom unit_conversion \<and>
     init_unit s \<in> dom unit_conversion"

definition quiet_env :: env where
  "quiet_env = \<lparr>stage_move = (\<lambda>p a. None), scan_function = (\<lambda>idx. Inr 1), abort_time = None\<rparr>"

definition nonneg_duration :: "duration \<Rightarrow> bool" where
  "nonneg_duration d = (case d of Infinite \<Rightarrow> True | Seconds x \<Rightarrow> 0 \<le> x)"




section \<open>Properties\<close>

lemma and_then_simps:
  "and_then (lift (Inl e)) g s = (Inl e, s)"
  "and_then (lift (Inr x)) g s = g x s"
  "and_then (modify f) h s = h () (f s)"
  "and_then (returns x) g s = g x s"
  by (simp_all add: and_then_def lift_def modify_def returns_def)

lemma dom_unit_conversion: "dom unit_conversion = {''nm'', ''um'', ''mm''}"
  by (auto simp: unit_conversion_def split: if_splits)

text \<open>
  C10: a unit string outside nm, um, mm makes \<open>rescale_parameter\<close> fail on its
  assertion, and the scanner (the unit tag and the parameter array included) is left as
  it was.
\<close>

theorem rescale_parameter_invalid_unit:
  "new_unit \<notin> {''nm'', ''um'', ''mm''} \<Longrightarrow> rescale_parameter p new_unit s = (Inl AssertionError, s)"
  by (simp add: rescale_parameter_def dom_unit_conversion)

theorem rescale_parameter_invalid_unit_witness:
  "''cm'' \<notin> {''nm'', ''um'', ''mm''} \<and>
   rescale_parameter Size ''cm'' (new_scanner [''x'', ''y'']) = (Inl AssertionError, new_scanner [''x'', ''y''])"
  using rescale_parameter_invalid_unit [of "''cm''" Size "new_scanner [''x'', ''y'']"] by simp

subsection \<open>The constructor\<close>

lemma init_grid_keeps:
  "axes (snd (init_grid a b c d s)) = axes s"
  "axes_names (snd (init_grid a b c d s)) = axes_names s"
  "size_arr (snd (init_grid a b c d s)) = size_arr s"
  "step (snd (init_grid a b c d s)) = step s"
  "init (snd (init_grid a b c d s)) = init s"
  "num_axes (snd (init_grid a b c d s)) = num_axes s"
  "trace (snd (init_grid a b c d s)) = trace s"
  "size_unit (snd (init_grid a b c d s)) = size_unit s"
  "step_unit (snd (init_grid a b c d s)) = step_unit s"
  "init_unit (snd (init_grid a b c d s)) = init_unit s"
  by (simp_all add: init_grid_def split: sum.splits)


lemma new_scanner_fields:
  "axes (new_scanner names) = names"
  "size_arr (new_scanner names) = replicate (length names) 1"
  "size_unit (new_scanner names) = ''um''"
  "step_unit (new_scanner names) = ''um''"
  "init_unit (new_scanner names) = ''um''"
  by (simp_all add: new_scanner_def init_current_grid_def init_grid_keeps Let_def)

subsection \<open>Changing the number of axes\<close>





subsection \<open>Rescaling\<close>

lemma lookup_unit_simps:
  "lookup_unit ''nm'' = Inr (1 / 10 ^ 9)"
  "lookup_unit ''um'' = Inr (1 / 10 ^ 6)"
  "lookup_unit ''mm'' = Inr (1 / 10 ^ 3)"
  by (simp_all add: lookup_unit_def unit_conversion_def)


lemma set_get_unit: "set_unit p (get_unit p s) (set_param p (get_param p s) s) = s"
  by (cases p) simp_all


lemma unit_conversion_pos: "unit_conversion u = Some c \<Longrightarrow> 0 < c"
  by (auto simp: unit_conversion_def split: if_splits)




subsection \<open>Building the grid\<close>

lemma sync_keeps:
  "trace (sync ev s) = trace s"
  "size_unit (sync ev s) = size_unit s"
  "step_unit (sync ev s) = step_unit s"
  "init_unit (sync ev s) = init_unit s"
  "stage_units (sync ev s) = stage_units s"
  "grid_shape (sync ev s) = grid_shape s"
  "step_times (sync ev s) = step_times s"
  "total_points (sync ev s) = total_points s"
  "linear_index (sync ev s) = linear_index s"
  "status (sync ev s) = status s"
  by (simp_all add: sync_def split: option.splits)

lemma py_index_nat: "i < length xs \<Longrightarrow> py_index xs (int i) = Inr (xs ! i)"
  by (simp add: py_index_def)

lemma bind_err_simps:
  "bind_err (Inl e) f = Inl e"
  "bind_err (Inr x) f = f x"
  by (simp_all add: bind_err_def)

lemma valid_unitsD:
  assumes "valid_units s"
  obtains c_size c_step c_init where
    "unit_conversion (size_unit s) = Some c_size" "unit_conversion (step_unit s) = Some c_step"
    "unit_conversion (init_unit s) = Some c_init" "0 < c_size" "0 < c_step" "0 < c_init"
  using assms unfolding valid_units_def by (meson domD unit_conversion_pos)

lemma arange_from_zero:
  "stp \<noteq> 0 \<Longrightarrow> arange 0 stop stp = Inr (map (\<lambda>i. real i * stp) [0..<nat \<lceil>stop / stp\<rceil>])"
  by (simp add: arange_def)

lemma grid_axis_ok:
  assumes "i < length sz" "i < length st" "i < length ini"
    and "unit_conversion (size_unit g) = Some c_size" "unit_conversion (step_unit g) = Some c_step"
    and "unit_conversion (init_unit g) = Some c_init" and "st ! i * c_step \<noteq> 0"
  shows "grid_axis g sz st ini i = Inr (axis_coordinates (sz ! i * c_size) (st ! i * c_step) (ini ! i * c_init))"
  using assms
  by (simp add: grid_axis_def py_index_nat lookup_unit_def bind_err_simps Let_def
      arange_from_zero axis_coordinates_def o_def del: mult_eq_0_iff)

lemma grid_axis_zero_step:
  assumes "i < length sz" "i < length st" "i < length ini"
    and "unit_conversion (size_unit g) = Some c_size" "unit_conversion (step_unit g) = Some c_step"
    and "unit_conversion (init_unit g) = Some c_init" and "st ! i = 0"
  shows "grid_axis g sz st ini i = Inl ArangeError"
  using assms
  by (simp add: grid_axis_def py_index_nat lookup_unit_def bind_err_simps Let_def arange_def)


lemma grid_axes_zero_step:
  assumes "\<forall>i \<in> set idxs. i < length sz \<and> i < length st \<and> i < length ini"
    and "unit_conversion (size_unit g) = Some c_size" "unit_conversion (step_unit g) = Some c_step"
    and "unit_conversion (init_unit g) = Some c_init" and "c_step \<noteq> 0"
    and "\<exists>i \<in> set idxs. st ! i = 0"
  shows "grid_axes g sz st ini idxs acc = Inl ArangeError"
  using assms(1,6)
proof (induction idxs arbitrary: acc)
  case Nil
  then show ?case by simp
next
  case (Cons i rest)
  show ?case
  proof (cases "st ! i = 0")
    case True
    then have "grid_axis g sz st ini i = Inl ArangeError"
      using Cons.prems(1) assms(2-4) by (intro grid_axis_zero_step) auto
    then show ?thesis by (simp add: bind_err_simps)
  next
    case False
    then have "grid_axis g sz st ini i = Inr (axis_coordinates (sz ! i * c_size) (st ! i * c_step) (ini ! i * c_init))"
      using Cons.prems(1) assms(2-5) by (intro grid_axis_ok) auto
    moreover have "\<exists>i \<in> set rest. st ! i = 0" using Cons.prems(2) False by auto
    ultimately show ?thesis
      using Cons by (simp add: bind_err_simps)
  qed
qed





lemma and_then_raises: "f s = (Inl e, s') \<Longrightarrow> and_then f g s = (Inl e, s')"
  by (simp add: and_then_def)

lemma and_then_returns: "f s = (Inr x, s') \<Longrightarrow> and_then f g s = g x s'"
  by (simp add: and_then_def)

lemma init_grid_zero:
  assumes "valid_units s" and "length axs \<le> length sz" "length axs \<le> length st" "length axs \<le> length ini"
    and "i < length axs" and "st ! i = 0"
  shows "init_grid axs sz st ini s = (Inl ArangeError, s)"
proof -
  from assms(1) obtain c_size c_step c_init where
    u: "unit_conversion (size_unit s) = Some c_size" "unit_conversion (step_unit s) = Some c_step"
       "unit_conversion (init_unit s) = Some c_init" and pos: "0 < c_step"
    by (rule valid_unitsD)
  have "grid_axes s sz st ini [0..<length axs] [] = Inl ArangeError"
    using assms(2-6) u pos by (intro grid_axes_zero_step) auto
  then show ?thesis
    by (simp add: init_grid_def)
qed

text \<open>
  C4: with an axis of size \<open>> 0\<close> and step \<open>0\<close>, \<open>init_grid\<close> raises and leaves the
  scanner as it was, and \<open>scan_grid\<close> raises the same exception before it has called
  the stage (or any hook): its trace is the one it started with. The exception is the
  one of \<open>numpy.arange\<close>; the code has no exception class of its own for it.
\<close>

theorem init_grid_zero_step:
  assumes "valid_units s" and "length axs \<le> length sz" "length axs \<le> length st" "length axs \<le> length ini"
    and "i < length axs" and "0 < sz ! i" and "st ! i = 0"
  shows "init_grid axs sz st ini s = (Inl ArangeError, s) \<and>
         fst (scan_grid ev axs sz st ini s) = Inl ArangeError \<and>
         trace (snd (scan_grid ev axs sz st ini s)) = trace s"
proof -
  let ?t = "sync ev (s\<lparr>abort_requested := False\<rparr>)"
  have "valid_units ?t"
    using assms(1) by (simp add: valid_units_def sync_keeps)
  then have "init_grid axs sz st ini ?t = (Inl ArangeError, ?t)"
    using assms(2-5,7) by (rule init_grid_zero)
  then have "scan_grid ev axs sz st ini s = (Inl ArangeError, ?t)"
    unfolding scan_grid_def and_then_simps by (rule and_then_raises)
  then show ?thesis
    using init_grid_zero [OF assms(1-5,7)] by (simp add: sync_keeps)
qed

theorem init_grid_zero_step_witness:
  "valid_units (new_scanner [''x'', ''y'']) \<and> (0::real) < [1, 1] ! 1 \<and> [5 / 100, 0] ! 1 = (0::real) \<and>
   init_grid [''x'', ''y''] [1, 1] [5 / 100, 0] [0, 0] (new_scanner [''x'', ''y''])
     = (Inl ArangeError, new_scanner [''x'', ''y'']) \<and>
   fst (scan_grid quiet_env [''x'', ''y''] [1, 1] [5 / 100, 0] [0, 0] (new_scanner [''x'', ''y''])) = Inl ArangeError \<and>
   trace (snd (scan_grid quiet_env [''x'', ''y''] [1, 1] [5 / 100, 0] [0, 0] (new_scanner [''x'', ''y''])))
     = trace (new_scanner [''x'', ''y''])"
  using init_grid_zero_step [of "new_scanner [''x'', ''y'']" "[''x'', ''y'']" "[1, 1]" "[5 / 100, 0]" "[0, 0]" 1 quiet_env]
  by (simp add: valid_units_def new_scanner_fields dom_unit_conversion)

subsection \<open>The time remaining\<close>

lemma new_scanner_step_times: "step_times (new_scanner names) = None"
  by (simp add: new_scanner_def init_current_grid_def init_grid_def Let_def split: sum.splits)

lemma mean_nonneg: "(\<forall>x \<in> set xs. 0 \<le> x) \<Longrightarrow> 0 \<le> mean xs"
  by (simp add: mean_def sum_list_nonneg)

text \<open>
  C5, as the code has it: before any scan (no \<open>_step_times\<close>) the estimate is \<open>np.inf\<close>;
  with step times of which none is finite it is 0; with finite step times it is
  \<open>(total_points - _index)\<close> times their mean; and it is at least 0 whenever \<open>_index\<close>
  does not exceed \<open>total_points\<close> and no recorded step time is negative.
\<close>

theorem estimated_time_remaining_cases:
  "(step_times s = None \<longrightarrow> get_estimated_time_remaining s = Infinite) \<and>
   get_estimated_time_remaining (new_scanner names) = Infinite \<and>
   (\<forall>ts. step_times s = Some ts \<and> finite_entries ts = [] \<longrightarrow>
      get_estimated_time_remaining s = Seconds 0) \<and>
   (\<forall>ts. step_times s = Some ts \<and> finite_entries ts \<noteq> [] \<longrightarrow>
      get_estimated_time_remaining s =
        Seconds (real_of_int (int (total_points s) - int (linear_index s)) * mean (finite_entries ts))) \<and>
   (linear_index s \<le> total_points s \<and>
    (\<forall>ts. step_times s = Some ts \<longrightarrow> (\<forall>x \<in> set (finite_entries ts). 0 \<le> x)) \<longrightarrow>
      nonneg_duration (get_estimated_time_remaining s))"
proof -
  have nn: "nonneg_duration (get_estimated_time_remaining s)"
    if le: "linear_index s \<le> total_points s"
      and pos: "\<forall>ts. step_times s = Some ts \<longrightarrow> (\<forall>x \<in> set (finite_entries ts). 0 \<le> x)"
  proof (cases "step_times s")
    case None
    then show ?thesis by (simp add: get_estimated_time_remaining_def nonneg_duration_def)
  next
    case (Some ts)
    then have "0 \<le> mean (finite_entries ts)" using pos mean_nonneg by blast
    moreover have "0 \<le> real_of_int (int (total_points s) - int (linear_index s))" using le by simp
    ultimately show ?thesis
      using Some by (simp add: get_estimated_time_remaining_def nonneg_duration_def)
  qed
  show ?thesis
    using nn by (simp add: get_estimated_time_remaining_def new_scanner_step_times)
qed

theorem estimated_time_remaining_cases_witness:
  "get_estimated_time_remaining
     (snd (scan_grid quiet_env [''x'', ''y''] [1, 1] [1, 1] [0, 0] (new_scanner [''x'', ''y''])))
     = Seconds 0 \<and>
   get_estimated_time_remaining
     ((new_scanner [''x''])\<lparr>step_times := Some [Some 2, None, Some 4, None], total_points := 4, linear_index := 2\<rparr>)
     = Seconds 6 \<and>
   nonneg_duration (get_estimated_time_remaining
     ((new_scanner [''x''])\<lparr>step_times := Some [Some 2, None, Some 4, None], total_points := 4, linear_index := 2\<rparr>)) \<and>
   get_estimated_time_remaining
     ((new_scanner [''x''])\<lparr>step_times := Some [None, None], total_points := 2, linear_index := 0\<rparr>) = Seconds 0"
proof -
  let ?s = "(new_scanner [''x''])\<lparr>step_times := Some [Some 2, None, Some 4, None], total_points := 4, linear_index := 2\<rparr>"
  let ?z = "(new_scanner [''x''])\<lparr>step_times := Some [None, None], total_points := 2, linear_index := 0\<rparr>"
  have fe: "finite_entries [Some 2, None, Some 4, None] = [2, 4 :: real]" "finite_entries [None, None] = []"
    by (simp_all add: finite_entries_def)
  have a: "get_estimated_time_remaining ?s = Seconds 6" "nonneg_duration (get_estimated_time_remaining ?s)"
    using estimated_time_remaining_cases [of ?s "[]"] by (simp_all add: fe mean_def nonneg_duration_def)
  have b: "get_estimated_time_remaining ?z = Seconds 0"
    using estimated_time_remaining_cases [of ?z "[]"] by (simp add: fe)
  have c: "get_estimated_time_remaining
     (snd (scan_grid quiet_env [''x'', ''y''] [1, 1] [1, 1] [0, 0] (new_scanner [''x'', ''y''])))
     = Seconds 0"
    by code_simp
  show ?thesis using a b c by simp
qed

text \<open>
  Without that proviso the estimate can be negative: \<open>init_grid\<close> replaces
  \<open>total_points\<close> and leaves \<open>_index\<close>, so after a scan of 2 x 2 points a rebuild to a
  grid of one point gives \<open>(1 - 4) * 1 = -3\<close> seconds.
\<close>

theorem estimated_time_remaining_negative_counterexample:
  "get_estimated_time_remaining
     (snd (init_grid [''x'', ''y''] [0, 0] [1, 1] [0, 0]
        (snd (scan_grid quiet_env [''x'', ''y''] [1, 1] [1, 1] [0, 0] (new_scanner [''x'', ''y''])))))
     = Seconds (- 3) \<and>
   \<not> nonneg_duration (get_estimated_time_remaining
     (snd (init_grid [''x'', ''y''] [0, 0] [1, 1] [0, 0]
        (snd (scan_grid quiet_env [''x'', ''y''] [1, 1] [1, 1] [0, 0] (new_scanner [''x'', ''y'']))))))"
  by code_simp

subsection \<open>Exceptions during a scan\<close>




























end
